theory Spec2Isabelle
  imports Complex_Main "HOL-Library.Char_ord" "HOL-Library.List_Lexorder"
    "HOL-Library.Product_Lexorder"
begin

section \<open>The match table of \<open>app.py\<close>\<close>

text \<open>
  \<open>app.py\<close> reads one CSV file of football matches with pandas, derives columns, and
  computes aggregates per page of the dashboard. The model keeps the table row by row:
  a row is a record with one field per column, and the column labels of a frame are kept
  beside its rows, so that reading a column that does not exist is the \<open>KeyError\<close> of
  pandas. Strings are ordered as Python orders them (by code point), which is the
  lexicographic order of \<open>HOL-Library.List_Lexorder\<close> over \<open>HOL-Library.Char_ord\<close>.

  Typing of the cells: a cell of a numeric column holds an integer or is empty (pandas
  reads an empty cell as NaN), and so does the cell of the referee; an empty cell is
  \<open>None\<close> here. \<open>load_data\<close> validates no cell, so the goals can be empty as well
  as the match statistics. Python's \<open>/\<close> is modelled by
  exact division on \<open>rat\<close>; the rounding of binary floating point is not modelled.
\<close>

datatype py_error = KeyError string | ValueError string | ZeroDivisionError

text \<open>The three labels that \<open>load_data\<close> writes into \<open>Resultado_Final\<close>
  (in the source the strings "Vitoria Casa", "Vitoria Visitante" and "Empate", the first two
  with an acute accent on the o).\<close>

datatype resultado = RVitoriaCasa | RVitoriaVisitante | REmpate

text \<open>One line of \<open>England CSV.csv\<close>; the fields are the columns of the file.\<close>

record jogo_csv =
  Date :: string
  Season :: string
  HomeTeam :: string
  AwayTeam :: string
  FTH_Goals :: "int option"
  FTA_Goals :: "int option"
  FT_Result :: string
  HTH_Goals :: "int option"
  HTA_Goals :: "int option"
  HT_Result :: string
  Referee :: "string option"
  H_Shots :: "int option"
  A_Shots :: "int option"
  H_SOT :: "int option"
  A_SOT :: "int option"
  H_Fouls :: "int option"
  A_Fouls :: "int option"
  H_Corners :: "int option"
  A_Corners :: "int option"
  H_Yellow :: "int option"
  A_Yellow :: "int option"
  H_Red :: "int option"
  A_Red :: "int option"

text \<open>What \<open>pd.read_csv\<close> returns: the labels of the columns found in the file, and
  the lines. A field of a line holds the cell of the column that carries the label of the
  field, or already carries the label to which line 39 renames it; the header may have
  other columns, which are never read. A field whose column is not in the header is never
  read.\<close>

record csv =
  header :: "string list"
  rows :: "jogo_csv list"

text \<open>A parsed date: year, month, day.\<close>

type_synonym data = "nat \<times> nat \<times> nat"

text \<open>One row of the table that \<open>load_data\<close> returns.\<close>

record jogo =
  Data :: data
  Temporada :: string
  Time_Casa :: string
  Time_Visitante :: string
  Gols_Time_Casa :: "int option"
  Gols_Time_Visitante :: "int option"
  Resultado_Final :: "resultado option"
  Gols_Casa_1T :: "int option"
  Gols_Visitante_1T :: "int option"
  Resultado_1T :: string
  Chutes_Casa :: "int option"
  Chutes_Visitante :: "int option"
  Chutes_Gol_Casa :: "int option"
  Chutes_Gol_Visitante :: "int option"
  Faltas_Casa :: "int option"
  Faltas_Visitante :: "int option"
  Escanteios_Casa :: "int option"
  Escanteios_Visitante :: "int option"
  Amarelos_Casa :: "int option"
  Amarelos_Visitante :: "int option"
  Vermelhos_Casa :: "int option"
  Vermelhos_Visitante :: "int option"
  Arbitro :: string
  Dif_Gols :: "int option"
  Total_Gols :: "int option"
  Vitoria_Casa :: int
  Empate :: int
  Vitoria_Visitante :: int
  Intensidade_Ofensiva :: "int option"
  Total_Faltas :: "int option"
  Total_Vermelhos :: "int option"
  Estatisticas_Completas :: bool
  Periodo_Completo :: bool

text \<open>A data frame of matches: the column labels in order, the rows, and the column
  \<open>Campeao\<close> that the champions test adds (\<open>None\<close> while the frame has no such column).\<close>

record tabela =
  colunas :: "string list"
  linhas :: "jogo list"
  Campeao :: "bool list option"

section \<open>\<open>load_data\<close>\<close>

text \<open>The label of the referee column after renaming: "Arbitro" with an acute accent on
  the A, in UTF-8.\<close>

definition arbitro_label :: string where
  "arbitro_label = CHR 0xC3 # CHR 0x81 # ''rbitro''"

text \<open>The dictionary of \<open>df.rename(columns=...)\<close>, lines 39-48.\<close>

definition renomear :: "(string \<times> string) list" where
  "renomear =
    [(''Date'', ''Data''), (''Season'', ''Temporada''), (''HomeTeam'', ''Time_Casa''),
     (''AwayTeam'', ''Time_Visitante''), (''FTH Goals'', ''Gols_Time_Casa''),
     (''FTA Goals'', ''Gols_Time_Visitante''), (''FT Result'', ''Resultado_Final''),
     (''HTH Goals'', ''Gols_Casa_1T''), (''HTA Goals'', ''Gols_Visitante_1T''),
     (''HT Result'', ''Resultado_1T''), (''H Shots'', ''Chutes_Casa''),
     (''A Shots'', ''Chutes_Visitante''), (''H SOT'', ''Chutes_Gol_Casa''),
     (''A SOT'', ''Chutes_Gol_Visitante''), (''H Fouls'', ''Faltas_Casa''),
     (''A Fouls'', ''Faltas_Visitante''), (''H Corners'', ''Escanteios_Casa''),
     (''A Corners'', ''Escanteios_Visitante''), (''H Yellow'', ''Amarelos_Casa''),
     (''A Yellow'', ''Amarelos_Visitante''), (''H Red'', ''Vermelhos_Casa''),
     (''A Red'', ''Vermelhos_Visitante''), (''Referee'', arbitro_label)]"

text \<open>\<open>DataFrame.rename\<close>: a label with an entry in the dictionary is replaced, any
  other label is kept, and an entry whose label is not in the frame is ignored.\<close>

definition rename :: "(string \<times> string) list \<Rightarrow> string list \<Rightarrow> string list" where
  "rename d cols = map (\<lambda>c. case map_of d c of Some c' \<Rightarrow> c' | None \<Rightarrow> c) cols"

text \<open>\<open>df[c]\<close> for each label of a list in turn: the first label that is no column of
  the frame is the one the \<open>KeyError\<close> names.\<close>

fun primeira_ausente :: "string list \<Rightarrow> string list \<Rightarrow> string option" where
  "primeira_ausente cols [] = None"
| "primeira_ausente cols (c # cs) =
     (if c \<in> set cols then primeira_ausente cols cs else Some c)"

text \<open>\<open>df[c] = ...\<close>: a new label goes to the end, an existing one keeps its place.\<close>

definition atribuir :: "string \<Rightarrow> string list \<Rightarrow> string list" where
  "atribuir c cols = (if c \<in> set cols then cols else cols @ [c])"

text \<open>The dictionary of \<open>.map(...)\<close> on the full-time result, line 62. \<open>Series.map\<close>
  with a dictionary gives NaN for a value that is no key of it.\<close>

definition mapa_resultado :: "(string \<times> resultado) list" where
  "mapa_resultado = [(''H'', RVitoriaCasa), (''A'', RVitoriaVisitante), (''D'', REmpate)]"

text \<open>\<open>team_mapping\<close> and \<open>Series.replace\<close>, lines 65-67.\<close>

definition team_mapping :: "(string \<times> string) list" where
  "team_mapping = [(''Brighton'', ''Brighton & Hove Albion''), (''Ipswich'', ''Ipswich Town'')]"

definition replace_team :: "string \<Rightarrow> string" where
  "replace_team t = (case map_of team_mapping t of Some t' \<Rightarrow> t' | None \<Rightarrow> t)"

text \<open>Addition and subtraction of two cells of numeric columns: NaN if either is NaN.\<close>

definition soma_nan :: "int option \<Rightarrow> int option \<Rightarrow> int option" where
  "soma_nan a b = (case a of None \<Rightarrow> None | Some x \<Rightarrow> (case b of None \<Rightarrow> None | Some y \<Rightarrow> Some (x + y)))"

definition sub_nan :: "int option \<Rightarrow> int option \<Rightarrow> int option" where
  "sub_nan a b = (case a of None \<Rightarrow> None | Some x \<Rightarrow> (case b of None \<Rightarrow> None | Some y \<Rightarrow> Some (x - y)))"

text \<open>The comparisons \<open>>\<close>, \<open>==\<close> and \<open><\<close> of two cells: false if either is NaN.\<close>

definition gt_nan :: "int option \<Rightarrow> int option \<Rightarrow> bool" where
  "gt_nan a b = (case a of None \<Rightarrow> False | Some x \<Rightarrow> (case b of None \<Rightarrow> False | Some y \<Rightarrow> x > y))"

definition eq_nan :: "int option \<Rightarrow> int option \<Rightarrow> bool" where
  "eq_nan a b = (case a of None \<Rightarrow> False | Some x \<Rightarrow> (case b of None \<Rightarrow> False | Some y \<Rightarrow> x = y))"

definition lt_nan :: "int option \<Rightarrow> int option \<Rightarrow> bool" where
  "lt_nan a b = (case a of None \<Rightarrow> False | Some x \<Rightarrow> (case b of None \<Rightarrow> False | Some y \<Rightarrow> x < y))"

text \<open>\<open>colunas_estatisticas\<close>, lines 70-73, and its cells in one row.\<close>

definition colunas_estatisticas :: "string list" where
  "colunas_estatisticas =
    [''Chutes_Casa'', ''Chutes_Visitante'', ''Chutes_Gol_Casa'', ''Chutes_Gol_Visitante'',
     ''Faltas_Casa'', ''Faltas_Visitante'', ''Escanteios_Casa'', ''Escanteios_Visitante'',
     ''Amarelos_Casa'', ''Amarelos_Visitante'', ''Vermelhos_Casa'', ''Vermelhos_Visitante'']"

definition estatisticas :: "jogo_csv \<Rightarrow> int option list" where
  "estatisticas r =
    [H_Shots r, A_Shots r, H_SOT r, A_SOT r, H_Fouls r, A_Fouls r,
     H_Corners r, A_Corners r, H_Yellow r, A_Yellow r, H_Red r, A_Red r]"

text \<open>\<open>df[colunas_estatisticas]\<close> in one row of the loaded table.\<close>

definition estatisticas_jogo :: "jogo \<Rightarrow> int option list" where
  "estatisticas_jogo j =
     [Chutes_Casa j, Chutes_Visitante j, Chutes_Gol_Casa j, Chutes_Gol_Visitante j,
      Faltas_Casa j, Faltas_Visitante j, Escanteios_Casa j, Escanteios_Visitante j,
      Amarelos_Casa j, Amarelos_Visitante j, Vermelhos_Casa j, Vermelhos_Visitante j]"

text \<open>The row of the loaded table for one line of the file, lines 36-77, given the parsed
  date of the line.\<close>

definition linha :: "data \<Rightarrow> jogo_csv \<Rightarrow> jogo" where
  "linha d r =
    \<lparr> Data = d,
      Temporada = Season r,
      Time_Casa = replace_team (HomeTeam r),
      Time_Visitante = replace_team (AwayTeam r),
      Gols_Time_Casa = FTH_Goals r,
      Gols_Time_Visitante = FTA_Goals r,
      Resultado_Final = map_of mapa_resultado (FT_Result r),
      Gols_Casa_1T = HTH_Goals r,
      Gols_Visitante_1T = HTA_Goals r,
      Resultado_1T = HT_Result r,
      Chutes_Casa = H_Shots r,
      Chutes_Visitante = A_Shots r,
      Chutes_Gol_Casa = H_SOT r,
      Chutes_Gol_Visitante = A_SOT r,
      Faltas_Casa = H_Fouls r,
      Faltas_Visitante = A_Fouls r,
      Escanteios_Casa = H_Corners r,
      Escanteios_Visitante = A_Corners r,
      Amarelos_Casa = H_Yellow r,
      Amarelos_Visitante = A_Yellow r,
      Vermelhos_Casa = H_Red r,
      Vermelhos_Visitante = A_Red r,
      Arbitro = (case Referee r of None \<Rightarrow> ''Desconhecido'' | Some a \<Rightarrow> a),
      Dif_Gols = sub_nan (FTH_Goals r) (FTA_Goals r),
      Total_Gols = soma_nan (FTH_Goals r) (FTA_Goals r),
      Vitoria_Casa = (if gt_nan (FTH_Goals r) (FTA_Goals r) then 1 else 0),
      Empate = (if eq_nan (FTH_Goals r) (FTA_Goals r) then 1 else 0),
      Vitoria_Visitante = (if lt_nan (FTH_Goals r) (FTA_Goals r) then 1 else 0),
      Intensidade_Ofensiva = soma_nan (H_SOT r) (A_SOT r),
      Total_Faltas = soma_nan (H_Fouls r) (A_Fouls r),
      Total_Vermelhos = soma_nan (H_Red r) (A_Red r),
      Estatisticas_Completas = (\<not> (\<exists>c \<in> set (estatisticas r). c = None)),
      Periodo_Completo = (Season r \<ge> ''2000/01'') \<rparr>"

text \<open>The labels that lines 51-77 assign, in the order of the assignments.\<close>

definition colunas_derivadas :: "string list" where
  "colunas_derivadas =
    [''Dif_Gols'', ''Total_Gols'', ''Vitoria_Casa'', ''Empate'', ''Vitoria_Visitante'',
     ''Intensidade_Ofensiva'', ''Total_Faltas'', ''Total_Vermelhos'',
     ''Estatisticas_Completas'', ''Periodo_Completo'']"

text \<open>The dates of all lines, or \<open>None\<close> if one of them does not parse.\<close>

fun datas :: "(string \<Rightarrow> data option) \<Rightarrow> jogo_csv list \<Rightarrow> data list option" where
  "datas to_datetime [] = Some []"
| "datas to_datetime (r # rs) =
     (case to_datetime (Date r) of
        None \<Rightarrow> None
      | Some d \<Rightarrow> (case datas to_datetime rs of None \<Rightarrow> None | Some ds \<Rightarrow> Some (d # ds)))"

text \<open>
  \<open>load_data\<close>, lines 32-79, on the file as read. \<open>pd.to_datetime\<close> with the format
  \<open>%d/%m/%Y\<close> is a parameter: a function from the text of a cell to a date, \<open>None\<close>
  where pandas raises \<open>ValueError\<close>. The column reads are checked in the order of the
  source: \<open>Referee\<close> before the renaming (line 36), then the operands of lines 51-58 and
  the date (line 61), then lines 62-77.
\<close>

definition load_data :: "(string \<Rightarrow> data option) \<Rightarrow> csv \<Rightarrow> py_error + tabela" where
  "load_data to_datetime f =
    (if ''Referee'' \<notin> set (header f) then Inl (KeyError ''Referee'')
     else
       let cols = rename renomear (header f) in
       case primeira_ausente cols
              [''Gols_Time_Casa'', ''Gols_Time_Visitante'', ''Chutes_Gol_Casa'',
               ''Chutes_Gol_Visitante'', ''Faltas_Casa'', ''Faltas_Visitante'',
               ''Vermelhos_Casa'', ''Vermelhos_Visitante'', ''Data''] of
         Some c \<Rightarrow> Inl (KeyError c)
       | None \<Rightarrow>
          (case datas to_datetime (rows f) of
             None \<Rightarrow> Inl (ValueError ''Data'')
           | Some ds \<Rightarrow>
              (case primeira_ausente cols
                      ([''Resultado_Final'', ''Time_Casa'', ''Time_Visitante'']
                       @ colunas_estatisticas @ [''Temporada'']) of
                 Some c \<Rightarrow> Inl (KeyError c)
               | None \<Rightarrow>
                   Inr \<lparr> colunas = foldl (\<lambda>cs c. atribuir c cs) cols colunas_derivadas,
                         linhas = map2 linha ds (rows f),
                         Campeao = None \<rparr>)))"





section \<open>The working copy \<open>df_analise\<close>\<close>

text \<open>
  Lines 81-97. \<open>df\<close> is the table that \<open>load_data\<close> returned; \<open>df_analise\<close> is bound to
  a copy of it, or to a copy of its rows with \<open>Periodo_Completo\<close>. The frames live in a
  heap, a list addressed by position, and the two names hold addresses: \<open>.copy()\<close> makes
  a new object, so an assignment through one name is not seen through the other.
\<close>

record script =
  heap :: "tabela list"
  df :: nat
  df_analise :: nat

definition escopo :: "bool \<Rightarrow> tabela \<Rightarrow> tabela" where
  "escopo detalhado d =
     (if detalhado then d\<lparr>linhas := filter Periodo_Completo (linhas d)\<rparr> else d)"

definition inicio :: "bool \<Rightarrow> tabela \<Rightarrow> script" where
  "inicio detalhado d = \<lparr> heap = [d, escopo detalhado d], df = 0, df_analise = 1 \<rparr>"

section \<open>Aggregations\<close>

subsection \<open>Totals per team (page 2, tab 2)\<close>

text \<open>\<open>Series.sum()\<close> and \<open>groupby(...).sum()\<close> skip NaN: an empty cell adds nothing.\<close>

definition nan0 :: "int option \<Rightarrow> int" where
  "nan0 c = (case c of None \<Rightarrow> 0 | Some x \<Rightarrow> x)"

text \<open>\<open>rs.groupby(k)[v].sum()\<close>: one entry per key that occurs, the keys in ascending
  order, each with the sum of \<open>v\<close> over the rows of that key.\<close>

definition groupby_sum :: "('r \<Rightarrow> 'k::linorder) \<Rightarrow> ('r \<Rightarrow> int) \<Rightarrow> 'r list \<Rightarrow> ('k \<times> int) list" where
  "groupby_sum k v rs =
     map (\<lambda>g. (g, sum_list (map v (filter (\<lambda>r. k r = g) rs)))) (sort (remdups (map k rs)))"

text \<open>\<open>a.add(b, fill_value=0)\<close> on two series indexed by team: the index of the result
  is the union of the two indexes, and a team missing on one side counts 0 there.\<close>

definition add_fill :: "(string \<times> int) list \<Rightarrow> (string \<times> int) list \<Rightarrow> (string \<times> int) list" where
  "add_fill a b =
     map (\<lambda>t. (t, (case map_of a t of None \<Rightarrow> 0 | Some x \<Rightarrow> x)
                 + (case map_of b t of None \<Rightarrow> 0 | Some y \<Rightarrow> y)))
         (sort (remdups (map fst a @ map fst b)))"

text \<open>Lines 275-277 and 284-286, up to the merge. The source then orders the series by
  value and keeps fifteen rows for the chart; that step is not modelled (which of two
  equal values comes first is left open by the default sort of pandas).\<close>

definition gols_casa :: "jogo list \<Rightarrow> (string \<times> int) list" where
  "gols_casa df_filtrado = groupby_sum Time_Casa (nan0 \<circ> Gols_Time_Casa) df_filtrado"

definition gols_visitante :: "jogo list \<Rightarrow> (string \<times> int) list" where
  "gols_visitante df_filtrado = groupby_sum Time_Visitante (nan0 \<circ> Gols_Time_Visitante) df_filtrado"

definition gols_totais :: "jogo list \<Rightarrow> (string \<times> int) list" where
  "gols_totais df_filtrado = add_fill (gols_casa df_filtrado) (gols_visitante df_filtrado)"

definition amarelos_casa :: "jogo list \<Rightarrow> (string \<times> int) list" where
  "amarelos_casa df_filtrado = groupby_sum Time_Casa (nan0 \<circ> Amarelos_Casa) df_filtrado"

definition amarelos_visitante :: "jogo list \<Rightarrow> (string \<times> int) list" where
  "amarelos_visitante df_filtrado =
     groupby_sum Time_Visitante (nan0 \<circ> Amarelos_Visitante) df_filtrado"

definition amarelos_totais :: "jogo list \<Rightarrow> (string \<times> int) list" where
  "amarelos_totais df_filtrado =
     add_fill (amarelos_casa df_filtrado) (amarelos_visitante df_filtrado)"

subsection \<open>Means per season (page 2, tab 1)\<close>

text \<open>\<open>rs.groupby(k)[v].mean()\<close>: the mean of the cells of a group that are not NaN,
  and NaN for a group without such a cell; line 208.\<close>

fun presentes :: "int option list \<Rightarrow> int list" where
  "presentes [] = []"
| "presentes (None # cs) = presentes cs"
| "presentes (Some x # cs) = x # presentes cs"

definition mean_nan :: "int option list \<Rightarrow> rat option" where
  "mean_nan cs =
     (let xs = presentes cs
      in if xs = [] then None else Some (of_int (sum_list xs) / of_nat (length xs)))"

definition groupby_mean :: "('r \<Rightarrow> 'k::linorder) \<Rightarrow> ('r \<Rightarrow> int option) \<Rightarrow> 'r list \<Rightarrow> ('k \<times> rat option) list" where
  "groupby_mean k v rs =
     map (\<lambda>g. (g, mean_nan (map v (filter (\<lambda>r. k r = g) rs)))) (sort (remdups (map k rs)))"

definition gols_por_temp :: "jogo list \<Rightarrow> (string \<times> rat option) list" where
  "gols_por_temp df_filtrado = groupby_mean Temporada Total_Gols df_filtrado"

subsection \<open>Champions (page 3, tab 1)\<close>

text \<open>Line 400: the home wins of every pair of season and home team, as rows
  (season, team, wins) ordered by season and team.\<close>

definition vitorias_casa_por_time :: "jogo list \<Rightarrow> (string \<times> string \<times> int) list" where
  "vitorias_casa_por_time rs =
     map (\<lambda>((t, c), v). (t, c, v))
       (groupby_sum (\<lambda>r. (Temporada r, Time_Casa r)) Vitoria_Casa rs)"

text \<open>Line 401: \<open>sort_values\<close> on two columns, the season ascending and the wins
  descending. On several columns pandas sorts stably, as \<open>sort_key\<close> does.\<close>

definition ordenar_campeoes :: "(string \<times> string \<times> int) list \<Rightarrow> (string \<times> string \<times> int) list" where
  "ordenar_campeoes g = sort_key (\<lambda>(t, c, v). (t, - v)) g"

text \<open>Line 402: \<open>groupby('Temporada').head(1)\<close>, the first row of every season.\<close>

fun head1 :: "(string \<times> string \<times> int) list \<Rightarrow> (string \<times> string \<times> int) list" where
  "head1 [] = []"
| "head1 (x # xs) = x # head1 (filter (\<lambda>y. fst y \<noteq> fst x) xs)"

definition champions :: "jogo list \<Rightarrow> (string \<times> string \<times> int) list" where
  "champions rs = head1 (ordenar_campeoes (vitorias_casa_por_time rs))"

text \<open>Line 403: \<open>isin\<close> against the column of champion names.\<close>

definition isin_champions :: "jogo list \<Rightarrow> string \<Rightarrow> bool" where
  "isin_champions rs c = (c \<in> set (map (\<lambda>(t, c', v). c') (champions rs)))"

text \<open>Lines 400-403 on the frame \<open>df_analise\<close>: the assignment adds the column.\<close>

definition marcar_campeao :: "tabela \<Rightarrow> tabela" where
  "marcar_campeao d =
     d\<lparr> colunas := atribuir ''Campeao'' (colunas d),
        Campeao := Some (map (\<lambda>r. isin_champions (linhas d) (Time_Casa r)) (linhas d)) \<rparr>"

definition teste_campeoes :: "script \<Rightarrow> script" where
  "teste_campeoes s =
     s\<lparr> heap := (heap s)[df_analise s := marcar_campeao (heap s ! df_analise s)] \<rparr>"

text \<open>
  The words of the specification, for comparison with \<open>champions\<close>. The count of home
  wins of a team in a season is the sum of the flag \<open>Vitoria_Casa\<close> over its home rows of
  that season. A team \<^emph>\<open>has the highest count\<close> in a season when it is a home team there
  and no home team of the season has more; it \<^emph>\<open>is the champion\<close> of the season when,
  in addition, every home team with the same count has a name that is not smaller.
\<close>

definition vitorias_casa :: "jogo list \<Rightarrow> string \<Rightarrow> string \<Rightarrow> int" where
  "vitorias_casa rs t c =
     sum_list (map Vitoria_Casa (filter (\<lambda>r. Temporada r = t \<and> Time_Casa r = c) rs))"

definition maior_vitorias_casa :: "jogo list \<Rightarrow> string \<Rightarrow> string \<Rightarrow> bool" where
  "maior_vitorias_casa rs t c \<longleftrightarrow>
     (\<exists>r \<in> set rs. Temporada r = t \<and> Time_Casa r = c)
     \<and> (\<forall>r \<in> set rs. Temporada r = t \<longrightarrow>
           vitorias_casa rs t (Time_Casa r) \<le> vitorias_casa rs t c)"

definition campeao_da_temporada :: "jogo list \<Rightarrow> string \<Rightarrow> string \<Rightarrow> bool" where
  "campeao_da_temporada rs t c \<longleftrightarrow>
     (\<exists>r \<in> set rs. Temporada r = t \<and> Time_Casa r = c)
     \<and> (\<forall>r \<in> set rs. Temporada r = t \<longrightarrow>
           vitorias_casa rs t (Time_Casa r) < vitorias_casa rs t c
           \<or> (vitorias_casa rs t (Time_Casa r) = vitorias_casa rs t c \<and> c \<le> Time_Casa r))"

text \<open>The key by which the rows stand after line 401: the season, then the wins in
  descending order, then (the sort being stable) the order of line 400, season and team.\<close>

definition chave_campeao :: "string \<times> string \<times> int \<Rightarrow> (string \<times> int) \<times> (string \<times> string)" where
  "chave_campeao x = ((fst x, - snd (snd x)), (fst x, fst (snd x)))"

subsection \<open>One team (page 4) and two teams (page 5)\<close>

text \<open>Lines 557 and 723: the teams offered for selection.\<close>

definition todos_times :: "jogo list \<Rightarrow> string list" where
  "todos_times rs = sort (remdups (map Time_Casa rs @ map Time_Visitante rs))"

text \<open>Lines 562, 734, 735 and 800.\<close>

definition jogos_time :: "jogo list \<Rightarrow> string \<Rightarrow> jogo list" where
  "jogos_time rs t = filter (\<lambda>r. Time_Casa r = t \<or> Time_Visitante r = t) rs"

text \<open>Lines 571-574 and 578.\<close>

definition vitorias :: "jogo list \<Rightarrow> string \<Rightarrow> nat" where
  "vitorias jt t =
     length (filter (\<lambda>r. (Time_Casa r = t \<and> Resultado_Final r = Some RVitoriaCasa)
                        \<or> (Time_Visitante r = t \<and> Resultado_Final r = Some RVitoriaVisitante)) jt)"

definition empates :: "jogo list \<Rightarrow> nat" where
  "empates jt = length (filter (\<lambda>r. Resultado_Final r = Some REmpate) jt)"

text \<open>Python's \<open>/\<close> on two integers raises \<open>ZeroDivisionError\<close> on a zero divisor.\<close>

definition truediv :: "int \<Rightarrow> int \<Rightarrow> py_error + rat" where
  "truediv a b = (if b = 0 then Inl ZeroDivisionError else Inr (of_int a / of_int b))"

text \<open>Lines 582, 603, 769, 770, 855 and 867: the expression
  \<open>(vitorias * 3 + empates) / (len(jogos) * 3) * 100\<close>.\<close>

definition aproveitamento :: "nat \<Rightarrow> nat \<Rightarrow> nat \<Rightarrow> py_error + rat" where
  "aproveitamento v e n =
     (case truediv (int (v * 3 + e)) (int (n * 3)) of
        Inl err \<Rightarrow> Inl err
      | Inr q \<Rightarrow> Inr (q * 100))"

text \<open>The fourth metric of page 4 (line 582) for the selected team; \<open>ap_time1\<close> and
  \<open>ap_time2\<close> of page 5 (lines 769-770) are the same expression.\<close>

definition aproveitamento_time :: "jogo list \<Rightarrow> string \<Rightarrow> py_error + rat" where
  "aproveitamento_time rs t =
     (let jt = jogos_time rs t in aproveitamento (vitorias jt t) (empates jt) (length jt))"








text \<open>Lines 625-629 and 650-656; lines 802-814 are the same code inside
  \<open>calcular_estatisticas_avancadas\<close>.\<close>

definition gols_marcados :: "jogo list \<Rightarrow> string \<Rightarrow> int" where
  "gols_marcados jt t =
     sum_list (map (nan0 \<circ> Gols_Time_Casa) (filter (\<lambda>r. Time_Casa r = t) jt))
     + sum_list (map (nan0 \<circ> Gols_Time_Visitante) (filter (\<lambda>r. Time_Visitante r = t) jt))"

definition chutes_gol_feitos :: "jogo list \<Rightarrow> string \<Rightarrow> int" where
  "chutes_gol_feitos jt t =
     sum_list (map (nan0 \<circ> Chutes_Gol_Casa) (filter (\<lambda>r. Time_Casa r = t) jt))
     + sum_list (map (nan0 \<circ> Chutes_Gol_Visitante) (filter (\<lambda>r. Time_Visitante r = t) jt))"

definition eficiencia :: "int \<Rightarrow> int \<Rightarrow> rat" where
  "eficiencia gols chutes = (if chutes > 0 then of_int gols / of_int chutes * 100 else 0)"

text \<open>The dictionary that \<open>calcular_estatisticas_avancadas\<close> returns, lines 799-821,
  as the triple of its values: efficiency, shots on target, yellow cards.\<close>

definition calcular_estatisticas_avancadas :: "string \<Rightarrow> jogo list \<Rightarrow> rat \<times> int \<times> int" where
  "calcular_estatisticas_avancadas t rs =
     (let jt = jogos_time rs t;
          gols = gols_marcados jt t;
          chutes = chutes_gol_feitos jt t
      in (eficiencia gols chutes, chutes,
          sum_list (map (nan0 \<circ> Amarelos_Casa) (filter (\<lambda>r. Time_Casa r = t) jt))
          + sum_list (map (nan0 \<circ> Amarelos_Visitante) (filter (\<lambda>r. Time_Visitante r = t) jt))))"

subsection \<open>Head to head (page 4, tab 3)\<close>

text \<open>Lines 682-685.\<close>

definition confrontos :: "jogo list \<Rightarrow> string \<Rightarrow> string \<Rightarrow> jogo list" where
  "confrontos rs time_selecionado adversarios =
     filter (\<lambda>r. (Time_Casa r = time_selecionado \<and> Time_Visitante r = adversarios)
                \<or> (Time_Casa r = adversarios \<and> Time_Visitante r = time_selecionado)) rs"

text \<open>What the tab shows, lines 687-710: the three metrics when there is a match, the
  notice of \<open>st.info\<close> when there is none. The list of the last five matches is not
  modelled.\<close>

datatype confrontos_saida = Metricas nat nat int | Info_Nenhum_Confronto

definition confrontos_diretos :: "jogo list \<Rightarrow> string \<Rightarrow> string \<Rightarrow> confrontos_saida" where
  "confrontos_diretos rs time_selecionado adversarios =
     (let c = confrontos rs time_selecionado adversarios in
      if length c > 0 then
        (let vitorias_time = vitorias c time_selecionado;
             vitorias_adversario = int (length c) - int vitorias_time - int (empates c)
         in Metricas vitorias_time (empates c) vitorias_adversario)
      else Info_Nenhum_Confronto)"

subsection \<open>The aggregations as steps of the script\<close>

text \<open>
  One step per aggregation: the value it computes from the frame that \<open>df_analise\<close> names,
  and the state of the script after it. The champions test is the only aggregation whose
  code assigns into a frame (line 403); the others bind their results to new names.
\<close>

datatype agregacao =
    Media_Por_Temporada
  | Totais_Por_Time
  | Campeoes
  | Confrontos_Diretos string string
  | Aproveitamento_Time string
  | Eficiencia_Time string

datatype valor =
    Medias "(string \<times> rat option) list"
  | Totais "(string \<times> int) list"
  | Lista_Campeoes "(string \<times> string \<times> int) list"
  | Jogos "jogo list"
  | Percentual "py_error + rat"
  | Razao rat

fun executar :: "agregacao \<Rightarrow> script \<Rightarrow> script \<times> valor" where
  "executar Media_Por_Temporada s = (s, Medias (gols_por_temp (linhas (heap s ! df_analise s))))"
| "executar Totais_Por_Time s = (s, Totais (gols_totais (linhas (heap s ! df_analise s))))"
| "executar Campeoes s =
     (teste_campeoes s, Lista_Campeoes (champions (linhas (heap s ! df_analise s))))"
| "executar (Confrontos_Diretos a b) s = (s, Jogos (confrontos (linhas (heap s ! df_analise s)) a b))"
| "executar (Aproveitamento_Time t) s =
     (s, Percentual (aproveitamento_time (linhas (heap s ! df_analise s)) t))"
| "executar (Eficiencia_Time t) s =
     (s, Razao (fst (calcular_estatisticas_avancadas t (linhas (heap s ! df_analise s)))))"

section \<open>Example data\<close>

text \<open>An instance of the date reader, for the examples: it accepts the text
  \<open>dd/mm/yyyy\<close> with two digits for the day and the month and four for the year.\<close>

definition digito :: "char \<Rightarrow> nat option" where
  "digito c = (let n = of_char c :: nat in if 48 \<le> n \<and> n \<le> 57 then Some (n - 48) else None)"

definition dmy :: "string \<Rightarrow> data option" where
  "dmy s =
     (if length s = 10 \<and> s ! 2 = CHR ''/'' \<and> s ! 5 = CHR ''/'' then
        (case map digito [s ! 0, s ! 1, s ! 3, s ! 4, s ! 6, s ! 7, s ! 8, s ! 9] of
           [Some d1, Some d2, Some m1, Some m2, Some y1, Some y2, Some y3, Some y4] \<Rightarrow>
             (let d = 10 * d1 + d2; m = 10 * m1 + m2
              in if 1 \<le> d \<and> d \<le> 31 \<and> 1 \<le> m \<and> m \<le> 12
                 then Some (1000 * y1 + 100 * y2 + 10 * y3 + y4, m, d) else None)
         | _ \<Rightarrow> None)
      else None)"

definition jogo_csv_exemplo :: "string \<Rightarrow> string \<Rightarrow> string \<Rightarrow> string \<Rightarrow> int \<Rightarrow> int \<Rightarrow> string \<Rightarrow> int option \<Rightarrow> jogo_csv" where
  "jogo_csv_exemplo dia s h a gh ga res st =
    \<lparr> Date = dia, Season = s, HomeTeam = h, AwayTeam = a, FTH_Goals = Some gh, FTA_Goals = Some ga,
      FT_Result = res, HTH_Goals = Some 0, HTA_Goals = Some 0, HT_Result = ''D'',
      Referee = None, H_Shots = st, A_Shots = st, H_SOT = st, A_SOT = st, H_Fouls = st,
      A_Fouls = st, H_Corners = st, A_Corners = st, H_Yellow = st, A_Yellow = st,
      H_Red = st, A_Red = st \<rparr>"

definition csv_exemplo :: csv where
  "csv_exemplo =
    \<lparr> header = map fst renomear,
      rows =
        [jogo_csv_exemplo ''14/08/1999'' ''1999/00'' ''Arsenal'' ''Chelsea'' 2 1 ''H'' None,
         jogo_csv_exemplo ''21/08/1999'' ''1999/00'' ''Chelsea'' ''Arsenal'' 0 0 ''D'' None,
         jogo_csv_exemplo ''19/08/2000'' ''2000/01'' ''Brighton'' ''Arsenal'' 1 3 ''A'' (Some 5),
         jogo_csv_exemplo ''26/08/2000'' ''2000/01'' ''Chelsea'' ''Brighton'' 2 0 ''H'' (Some 4)] \<rparr>"

definition jogos_exemplo :: "jogo list" where
  "jogos_exemplo =
     map2 linha [(1999, 8, 14), (1999, 8, 21), (2000, 8, 19), (2000, 8, 26)] (rows csv_exemplo)"

text \<open>The table loaded from \<open>csv_exemplo\<close>.\<close>

definition tabela_exemplo :: tabela where
  "tabela_exemplo =
     \<lparr> colunas = map snd renomear @ colunas_derivadas, linhas = jogos_exemplo, Campeao = None \<rparr>"




text \<open>A file with one line whose cell of home goals is empty.\<close>

definition csv_gol_vazio :: csv where
  "csv_gol_vazio =
    \<lparr> header = map fst renomear,
      rows = [(jogo_csv_exemplo ''14/08/1999'' ''1999/00'' ''Arsenal'' ''Chelsea'' 0 1 ''A'' None)
                \<lparr> FTH_Goals := None \<rparr>] \<rparr>"

text \<open>Two seasons. In the first, two home teams have one home win each, and the row of
  the team whose name is greater comes first; in the second a third team has the only home
  win.\<close>

definition jogos_empate :: "jogo list" where
  "jogos_empate =
     map (linha (2000, 8, 19))
       [jogo_csv_exemplo ''19/08/2000'' ''2000/01'' ''Chelsea'' ''Everton'' 1 0 ''H'' (Some 3),
        jogo_csv_exemplo ''19/08/2000'' ''2000/01'' ''Arsenal'' ''Everton'' 2 0 ''H'' (Some 3),
        jogo_csv_exemplo ''19/08/2000'' ''2001/02'' ''Everton'' ''Arsenal'' 1 0 ''H'' (Some 3)]"

lemmas exemplo_defs = jogos_exemplo_def csv_exemplo_def jogo_csv_exemplo_def linha_def
  replace_team_def team_mapping_def mapa_resultado_def soma_nan_def sub_nan_def gt_nan_def
  eq_nan_def lt_nan_def nan0_def estatisticas_def

section \<open>Performance percentage\<close>

lemma truediv_pos: "b \<noteq> 0 \<Longrightarrow> truediv a b = Inr (of_int a / of_int b)"
  by (simp add: truediv_def)

















section \<open>The loaded table\<close>

lemma datas_exemplo:
  "datas dmy (rows csv_exemplo) = Some [(1999, 8, 14), (1999, 8, 21), (2000, 8, 19), (2000, 8, 26)]"
  by (simp add: csv_exemplo_def jogo_csv_exemplo_def dmy_def digito_def Let_def)

lemma header_exemplo: "rename renomear (header csv_exemplo) = map snd renomear"
  by (simp add: csv_exemplo_def rename_def renomear_def)

lemma load_data_exemplo:
  "load_data dmy csv_exemplo =
     Inr \<lparr> colunas = map snd renomear @ colunas_derivadas, linhas = jogos_exemplo, Campeao = None \<rparr>"
proof -
  have r: "''Referee'' \<in> set (header csv_exemplo)"
    by (simp add: csv_exemplo_def renomear_def)
  have a: "primeira_ausente (map snd renomear)
              [''Gols_Time_Casa'', ''Gols_Time_Visitante'', ''Chutes_Gol_Casa'',
               ''Chutes_Gol_Visitante'', ''Faltas_Casa'', ''Faltas_Visitante'',
               ''Vermelhos_Casa'', ''Vermelhos_Visitante'', ''Data''] = None"
    by (simp add: renomear_def)
  have b: "primeira_ausente (map snd renomear)
                      (''Resultado_Final'' # ''Time_Casa'' # ''Time_Visitante''
                       # colunas_estatisticas @ [''Temporada'']) = None"
    by (simp add: renomear_def colunas_estatisticas_def)
  have c: "foldl (\<lambda>cs c. atribuir c cs) (map snd renomear) colunas_derivadas
             = map snd renomear @ colunas_derivadas"
    by (simp add: renomear_def colunas_derivadas_def atribuir_def arbitro_label_def)
  show ?thesis
    unfolding load_data_def Let_def header_exemplo
    using r by (simp add: a b c datas_exemplo jogos_exemplo_def del: primeira_ausente.simps)
qed

lemma load_data_linhas:
  assumes "load_data td f = Inr d"
  shows "\<exists>ds. length ds = length (rows f) \<and> linhas d = map2 linha ds (rows f)"
proof -
  have len: "\<And>ds. datas td rs = Some ds \<Longrightarrow> length ds = length rs" for rs
    by (induction rs) (auto split: option.splits)
  from assms obtain ds where "datas td (rows f) = Some ds" "linhas d = map2 linha ds (rows f)"
    by (auto simp: load_data_def Let_def split: if_splits option.splits)
  with len show ?thesis by blast
qed

lemma load_data_linha:
  assumes "load_data td f = Inr d" "j \<in> set (linhas d)"
  shows "\<exists>dt r. r \<in> set (rows f) \<and> j = linha dt r"
proof -
  from load_data_linhas[OF assms(1)] obtain ds where
    "linhas d = map2 linha ds (rows f)" by blast
  with assms(2) obtain dt r where "(dt, r) \<in> set (zip ds (rows f))" "j = linha dt r"
    by auto
  moreover from this(1) have "r \<in> set (rows f)" by (rule set_zip_rightD)
  ultimately show ?thesis by blast
qed

lemma jogos_exemplo_nth:
  "jogos_exemplo ! 0 \<in> set jogos_exemplo" "jogos_exemplo ! 2 \<in> set jogos_exemplo"
  "jogos_exemplo ! 3 \<in> set jogos_exemplo"
  by (simp_all add: jogos_exemplo_def csv_exemplo_def)

text \<open>
  Claim C5, as amended. In every row of the loaded table whose two cells of goals are
  filled, exactly one of the flags \<open>Vitoria_Casa\<close>, \<open>Empate\<close>, \<open>Vitoria_Visitante\<close> is 1
  and the other two are 0, and the flag that is set agrees with the sign of \<open>Dif_Gols\<close>,
  the home goals minus the away goals. In a row with an empty cell of goals, which the
  loader accepts, the three flags are 0 and \<open>Dif_Gols\<close> is empty.
\<close>

theorem flags_exclusivas:
  assumes "load_data td f = Inr d" "j \<in> set (linhas d)"
  shows "(Gols_Time_Casa j = Some a \<and> Gols_Time_Visitante j = Some b \<longrightarrow>
            Vitoria_Casa j + Empate j + Vitoria_Visitante j = 1
            \<and> Vitoria_Casa j \<in> {0, 1} \<and> Empate j \<in> {0, 1} \<and> Vitoria_Visitante j \<in> {0, 1}
            \<and> Dif_Gols j = Some (a - b)
            \<and> (Vitoria_Casa j = 1 \<longleftrightarrow> a - b > 0)
            \<and> (Empate j = 1 \<longleftrightarrow> a - b = 0)
            \<and> (Vitoria_Visitante j = 1 \<longleftrightarrow> a - b < 0))
       \<and> (Gols_Time_Casa j = None \<or> Gols_Time_Visitante j = None \<longrightarrow>
            Vitoria_Casa j = 0 \<and> Empate j = 0 \<and> Vitoria_Visitante j = 0 \<and> Dif_Gols j = None)"
proof -
  from load_data_linha[OF assms] obtain dt r where j: "j = linha dt r" by blast
  show ?thesis unfolding j
    by (auto simp: linha_def sub_nan_def gt_nan_def eq_nan_def lt_nan_def split: option.splits)
qed

theorem flags_exclusivas_witness:
  "load_data dmy csv_exemplo =
     Inr \<lparr> colunas = map snd renomear @ colunas_derivadas, linhas = jogos_exemplo, Campeao = None \<rparr>
   \<and> Gols_Time_Casa (jogos_exemplo ! 2) = Some 1
   \<and> Gols_Time_Visitante (jogos_exemplo ! 2) = Some 3
   \<and> Dif_Gols (jogos_exemplo ! 2) = Some (- 2)
   \<and> Vitoria_Casa (jogos_exemplo ! 2) = 0 \<and> Empate (jogos_exemplo ! 2) = 0
   \<and> Vitoria_Visitante (jogos_exemplo ! 2) = 1
   \<and> Vitoria_Casa (jogos_exemplo ! 2) + Empate (jogos_exemplo ! 2)
       + Vitoria_Visitante (jogos_exemplo ! 2) = 1"
proof -
  have m: "jogos_exemplo ! 2
     \<in> set (linhas \<lparr> colunas = map snd renomear @ colunas_derivadas, linhas = jogos_exemplo, Campeao = None \<rparr>)"
    using jogos_exemplo_nth by simp
  have g: "Gols_Time_Casa (jogos_exemplo ! 2) = Some 1"
    "Gols_Time_Visitante (jogos_exemplo ! 2) = Some 3"
    by (simp_all add: exemplo_defs)
  from flags_exclusivas[OF load_data_exemplo m, of 1 3] g
  have "Vitoria_Casa (jogos_exemplo ! 2) + Empate (jogos_exemplo ! 2)
          + Vitoria_Visitante (jogos_exemplo ! 2) = 1"
    "Dif_Gols (jogos_exemplo ! 2) = Some (1 - 3)"
    "Vitoria_Casa (jogos_exemplo ! 2) \<in> {0, 1}" "Empate (jogos_exemplo ! 2) \<in> {0, 1}"
    "(Vitoria_Visitante (jogos_exemplo ! 2) = 1) = ((1::int) - 3 < 0)"
    by blast+
  then have "Vitoria_Casa (jogos_exemplo ! 2) + Empate (jogos_exemplo ! 2)
          + Vitoria_Visitante (jogos_exemplo ! 2) = 1"
    "Dif_Gols (jogos_exemplo ! 2) = Some (- 2)"
    "Vitoria_Visitante (jogos_exemplo ! 2) = 1"
    "Vitoria_Casa (jogos_exemplo ! 2) = 0" "Empate (jogos_exemplo ! 2) = 0"
    by auto
  with load_data_exemplo g show ?thesis by (intro conjI)
qed

theorem flags_gol_vazio_counterexample:
  "FTH_Goals (hd (rows csv_gol_vazio)) = None
   \<and> load_data dmy csv_gol_vazio =
       Inr \<lparr> colunas = map snd renomear @ colunas_derivadas,
             linhas = [linha (1999, 8, 14) (hd (rows csv_gol_vazio))],
             Campeao = None \<rparr>
   \<and> Gols_Time_Casa (linha (1999, 8, 14) (hd (rows csv_gol_vazio))) = None
   \<and> Gols_Time_Visitante (linha (1999, 8, 14) (hd (rows csv_gol_vazio))) = Some 1
   \<and> Vitoria_Casa (linha (1999, 8, 14) (hd (rows csv_gol_vazio))) = 0
   \<and> Empate (linha (1999, 8, 14) (hd (rows csv_gol_vazio))) = 0
   \<and> Vitoria_Visitante (linha (1999, 8, 14) (hd (rows csv_gol_vazio))) = 0
   \<and> Vitoria_Casa (linha (1999, 8, 14) (hd (rows csv_gol_vazio)))
       + Empate (linha (1999, 8, 14) (hd (rows csv_gol_vazio)))
       + Vitoria_Visitante (linha (1999, 8, 14) (hd (rows csv_gol_vazio))) = 0"
proof -
  have r: "''Referee'' \<in> set (header csv_gol_vazio)"
    by (simp add: csv_gol_vazio_def renomear_def)
  have h: "rename renomear (header csv_gol_vazio) = map snd renomear"
    by (simp add: csv_gol_vazio_def rename_def renomear_def)
  have a: "primeira_ausente (map snd renomear)
              [''Gols_Time_Casa'', ''Gols_Time_Visitante'', ''Chutes_Gol_Casa'',
               ''Chutes_Gol_Visitante'', ''Faltas_Casa'', ''Faltas_Visitante'',
               ''Vermelhos_Casa'', ''Vermelhos_Visitante'', ''Data''] = None"
    by (simp add: renomear_def)
  have b: "primeira_ausente (map snd renomear)
                      (''Resultado_Final'' # ''Time_Casa'' # ''Time_Visitante''
                       # colunas_estatisticas @ [''Temporada'']) = None"
    by (simp add: renomear_def colunas_estatisticas_def)
  have c: "foldl (\<lambda>cs c. atribuir c cs) (map snd renomear) colunas_derivadas
             = map snd renomear @ colunas_derivadas"
    by (simp add: renomear_def colunas_derivadas_def atribuir_def arbitro_label_def)
  have d: "datas dmy (rows csv_gol_vazio) = Some [(1999, 8, 14)]"
    by (simp add: csv_gol_vazio_def jogo_csv_exemplo_def dmy_def digito_def Let_def)
  have e: "rows csv_gol_vazio = [hd (rows csv_gol_vazio)]"
    by (simp add: csv_gol_vazio_def)
  have z: "map2 linha [(1999, 8, 14)] (rows csv_gol_vazio)
          = [linha (1999, 8, 14) (hd (rows csv_gol_vazio))]"
    by (subst e) simp
  have l: "load_data dmy csv_gol_vazio =
       Inr \<lparr> colunas = map snd renomear @ colunas_derivadas,
             linhas = [linha (1999, 8, 14) (hd (rows csv_gol_vazio))],
             Campeao = None \<rparr>"
    unfolding load_data_def Let_def h
    using r by (simp add: a b c d z del: primeira_ausente.simps)
  have v: "FTH_Goals (hd (rows csv_gol_vazio)) = None"
    "Gols_Time_Casa (linha (1999, 8, 14) (hd (rows csv_gol_vazio))) = None"
    "Gols_Time_Visitante (linha (1999, 8, 14) (hd (rows csv_gol_vazio))) = Some 1"
    "Vitoria_Casa (linha (1999, 8, 14) (hd (rows csv_gol_vazio))) = 0"
    "Empate (linha (1999, 8, 14) (hd (rows csv_gol_vazio))) = 0"
    "Vitoria_Visitante (linha (1999, 8, 14) (hd (rows csv_gol_vazio))) = 0"
    by (simp_all add: csv_gol_vazio_def jogo_csv_exemplo_def linha_def gt_nan_def eq_nan_def
        lt_nan_def)
  from v have s: "Vitoria_Casa (linha (1999, 8, 14) (hd (rows csv_gol_vazio)))
       + Empate (linha (1999, 8, 14) (hd (rows csv_gol_vazio)))
       + Vitoria_Visitante (linha (1999, 8, 14) (hd (rows csv_gol_vazio))) = 0"
    by simp
  from v(1) l v(2-6) s show ?thesis by (intro conjI)
qed

text \<open>
  Claim C6. In every row of the loaded table \<open>Estatisticas_Completas\<close> is true exactly
  when none of the twelve statistics cells of the row is empty; two rows with the same
  twelve cells have the same flag, whatever their other fields are.
\<close>

theorem estatisticas_completas_iff:
  assumes "load_data td f = Inr d" "j \<in> set (linhas d)" "j' \<in> set (linhas d)"
  shows "(Estatisticas_Completas j \<longleftrightarrow>
           (Chutes_Casa j \<noteq> None \<and> Chutes_Visitante j \<noteq> None
            \<and> Chutes_Gol_Casa j \<noteq> None \<and> Chutes_Gol_Visitante j \<noteq> None
            \<and> Faltas_Casa j \<noteq> None \<and> Faltas_Visitante j \<noteq> None
            \<and> Escanteios_Casa j \<noteq> None \<and> Escanteios_Visitante j \<noteq> None
            \<and> Amarelos_Casa j \<noteq> None \<and> Amarelos_Visitante j \<noteq> None
            \<and> Vermelhos_Casa j \<noteq> None \<and> Vermelhos_Visitante j \<noteq> None))
       \<and> (estatisticas_jogo j = estatisticas_jogo j' \<longrightarrow>
            Estatisticas_Completas j = Estatisticas_Completas j')"
proof -
  from load_data_linha[OF assms(1,2)] obtain dt r where j: "j = linha dt r" by blast
  from load_data_linha[OF assms(1,3)] obtain dt' r' where j': "j' = linha dt' r'" by blast
  have c: "Estatisticas_Completas (linha x y) \<longleftrightarrow> None \<notin> set (estatisticas_jogo (linha x y))"
    for x y by (simp add: linha_def estatisticas_def estatisticas_jogo_def)
  have s: "None \<notin> set (estatisticas_jogo i) \<longleftrightarrow>
           (Chutes_Casa i \<noteq> None \<and> Chutes_Visitante i \<noteq> None
            \<and> Chutes_Gol_Casa i \<noteq> None \<and> Chutes_Gol_Visitante i \<noteq> None
            \<and> Faltas_Casa i \<noteq> None \<and> Faltas_Visitante i \<noteq> None
            \<and> Escanteios_Casa i \<noteq> None \<and> Escanteios_Visitante i \<noteq> None
            \<and> Amarelos_Casa i \<noteq> None \<and> Amarelos_Visitante i \<noteq> None
            \<and> Vermelhos_Casa i \<noteq> None \<and> Vermelhos_Visitante i \<noteq> None)"
    for i by (simp add: estatisticas_jogo_def eq_commute[of None])
  have "Estatisticas_Completas j \<longleftrightarrow> None \<notin> set (estatisticas_jogo j)"
    "Estatisticas_Completas j' \<longleftrightarrow> None \<notin> set (estatisticas_jogo j')"
    unfolding j j' by (rule c)+
  then show ?thesis using s[of j] by metis
qed

theorem estatisticas_completas_iff_witness:
  "load_data dmy csv_exemplo =
     Inr \<lparr> colunas = map snd renomear @ colunas_derivadas, linhas = jogos_exemplo, Campeao = None \<rparr>
   \<and> Estatisticas_Completas (jogos_exemplo ! 2)
   \<and> \<not> Estatisticas_Completas (jogos_exemplo ! 0)
   \<and> Chutes_Casa (jogos_exemplo ! 0) = None
   \<and> estatisticas_jogo (jogos_exemplo ! 2) = replicate 12 (Some 5)
   \<and> estatisticas_jogo (jogos_exemplo ! 3) = replicate 12 (Some 4)
   \<and> Estatisticas_Completas (jogos_exemplo ! 3)"
proof -
  let ?d = "\<lparr> colunas = map snd renomear @ colunas_derivadas, linhas = jogos_exemplo, Campeao = None \<rparr>"
  have m: "jogos_exemplo ! 0 \<in> set (linhas ?d)" "jogos_exemplo ! 2 \<in> set (linhas ?d)"
     "jogos_exemplo ! 3 \<in> set (linhas ?d)"
    using jogos_exemplo_nth by simp_all
  have v: "Chutes_Casa (jogos_exemplo ! 0) = None"
    "estatisticas_jogo (jogos_exemplo ! 2) = replicate 12 (Some 5)"
    "estatisticas_jogo (jogos_exemplo ! 3) = replicate 12 (Some 4)"
    by (simp_all add: exemplo_defs estatisticas_jogo_def numeral_eq_Suc)
  have e: "list_all (\<lambda>c. c \<noteq> None) (estatisticas_jogo (jogos_exemplo ! 2))"
          "list_all (\<lambda>c. c \<noteq> None) (estatisticas_jogo (jogos_exemplo ! 3))"
    unfolding v by (simp_all add: numeral_eq_Suc)
  from estatisticas_completas_iff[OF load_data_exemplo m(2) m(3)] e
  have "Estatisticas_Completas (jogos_exemplo ! 2)"
    by (simp add: estatisticas_jogo_def)
  moreover from estatisticas_completas_iff[OF load_data_exemplo m(3) m(2)] e
  have "Estatisticas_Completas (jogos_exemplo ! 3)"
    by (simp add: estatisticas_jogo_def)
  moreover from estatisticas_completas_iff[OF load_data_exemplo m(1) m(1)] v(1)
  have "\<not> Estatisticas_Completas (jogos_exemplo ! 0)" by simp
  ultimately show ?thesis using load_data_exemplo v by blast
qed

section \<open>Efficiency\<close>

lemma filter_casa_jogos_time:
  "filter (\<lambda>r. Time_Casa r = t) (jogos_time rs t) = filter (\<lambda>r. Time_Casa r = t) rs"
  unfolding jogos_time_def filter_filter by (rule filter_cong) auto

lemma filter_visitante_jogos_time:
  "filter (\<lambda>r. Time_Visitante r = t) (jogos_time rs t) = filter (\<lambda>r. Time_Visitante r = t) rs"
  unfolding jogos_time_def filter_filter by (rule filter_cong) auto

text \<open>
  Claim C7. The efficiency of a team is computed from its goals scored and its shots on
  target in the slice, both summed over its home and its away games: goals / shots * 100
  when the shots are positive, and 0 (a value, not an error) when they are 0, as for 10
  goals and no shot.
\<close>

theorem eficiencia_time:
  "fst (calcular_estatisticas_avancadas t rs)
     = eficiencia (gols_marcados (jogos_time rs t) t) (chutes_gol_feitos (jogos_time rs t) t)
   \<and> gols_marcados (jogos_time rs t) t
       = sum_list (map (nan0 \<circ> Gols_Time_Casa) (filter (\<lambda>r. Time_Casa r = t) rs))
         + sum_list (map (nan0 \<circ> Gols_Time_Visitante) (filter (\<lambda>r. Time_Visitante r = t) rs))
   \<and> chutes_gol_feitos (jogos_time rs t) t
       = sum_list (map (nan0 \<circ> Chutes_Gol_Casa) (filter (\<lambda>r. Time_Casa r = t) rs))
         + sum_list (map (nan0 \<circ> Chutes_Gol_Visitante) (filter (\<lambda>r. Time_Visitante r = t) rs))
   \<and> (0 < chutes \<longrightarrow> eficiencia gols chutes = of_int gols / of_int chutes * 100)
   \<and> eficiencia gols 0 = 0
   \<and> eficiencia 10 0 = 0"
  by (simp add: calcular_estatisticas_avancadas_def Let_def gols_marcados_def
      chutes_gol_feitos_def eficiencia_def filter_casa_jogos_time filter_visitante_jogos_time)

theorem eficiencia_time_witness:
  "fst (calcular_estatisticas_avancadas ''Arsenal'' (take 2 jogos_exemplo)) = 0
   \<and> gols_marcados (jogos_time (take 2 jogos_exemplo) ''Arsenal'') ''Arsenal'' = 2
   \<and> chutes_gol_feitos (jogos_time (take 2 jogos_exemplo) ''Arsenal'') ''Arsenal'' = 0
   \<and> (0::int) < 8 \<and> eficiencia 2 8 = 2 / 8 * 100
   \<and> eficiencia 10 0 = 0"
proof -
  have g: "sum_list (map (nan0 \<circ> Gols_Time_Casa) (filter (\<lambda>r. Time_Casa r = ''Arsenal'') (take 2 jogos_exemplo)))
         + sum_list (map (nan0 \<circ> Gols_Time_Visitante) (filter (\<lambda>r. Time_Visitante r = ''Arsenal'') (take 2 jogos_exemplo))) = 2"
    by (simp add: exemplo_defs)
  have c: "sum_list (map (nan0 \<circ> Chutes_Gol_Casa) (filter (\<lambda>r. Time_Casa r = ''Arsenal'') (take 2 jogos_exemplo)))
         + sum_list (map (nan0 \<circ> Chutes_Gol_Visitante) (filter (\<lambda>r. Time_Visitante r = ''Arsenal'') (take 2 jogos_exemplo))) = 0"
    by (simp add: exemplo_defs nan0_def)
  have h: "(0::int) < 8" by simp
  from eficiencia_time[of "''Arsenal''" "take 2 jogos_exemplo" 8 2] g c h
  show ?thesis by simp
qed

section \<open>Head to head\<close>

text \<open>
  Claim C8. The head-to-head filter gives the same rows for (A, B) and for (B, A): the
  rows in which the two teams meet, in either order of home and away. It is a total
  function; with no such row the result is the empty list, and the tab shows a notice.
\<close>

theorem confrontos_simetrico:
  "confrontos rs a b = confrontos rs b a
   \<and> set (confrontos rs a b)
       = {r \<in> set rs. (Time_Casa r = a \<and> Time_Visitante r = b)
                     \<or> (Time_Casa r = b \<and> Time_Visitante r = a)}
   \<and> (confrontos rs a b = [] \<longrightarrow> confrontos_diretos rs a b = Info_Nenhum_Confronto)"
proof -
  have "confrontos rs a b = confrontos rs b a"
    unfolding confrontos_def by (rule filter_cong) auto
  moreover have "set (confrontos rs a b)
       = {r \<in> set rs. (Time_Casa r = a \<and> Time_Visitante r = b)
                     \<or> (Time_Casa r = b \<and> Time_Visitante r = a)}"
    by (simp add: confrontos_def)
  moreover have "confrontos rs a b = [] \<longrightarrow> confrontos_diretos rs a b = Info_Nenhum_Confronto"
    by (simp add: confrontos_diretos_def)
  ultimately show ?thesis by blast
qed

theorem confrontos_simetrico_witness:
  "confrontos jogos_exemplo ''Arsenal'' ''Chelsea'' = take 2 jogos_exemplo
   \<and> confrontos jogos_exemplo ''Chelsea'' ''Arsenal'' = take 2 jogos_exemplo
   \<and> confrontos jogos_exemplo ''Arsenal'' ''Leeds'' = []
   \<and> confrontos_diretos jogos_exemplo ''Arsenal'' ''Leeds'' = Info_Nenhum_Confronto"
proof -
  have a: "confrontos jogos_exemplo ''Arsenal'' ''Chelsea'' = take 2 jogos_exemplo"
    by (simp add: confrontos_def exemplo_defs)
  have b: "confrontos jogos_exemplo ''Arsenal'' ''Leeds'' = []"
    by (simp add: confrontos_def exemplo_defs)
  from confrontos_simetrico[of jogos_exemplo "''Arsenal''" "''Chelsea''"] a
       confrontos_simetrico[of jogos_exemplo "''Arsenal''" "''Leeds''"] b
  show ?thesis by simp
qed

section \<open>Totals per team\<close>

lemma map_of_tabulate:
  "map_of (map (\<lambda>g. (g, h g)) ks) g = (if g \<in> set ks then Some (h g) else None)"
  by (induction ks) auto

lemma groupby_sum_keys: "map fst (groupby_sum k v rs) = sort (remdups (map k rs))"
  by (simp add: groupby_sum_def comp_def)

lemma groupby_sum_value:
  "(case map_of (groupby_sum k v rs) g of None \<Rightarrow> 0 | Some x \<Rightarrow> x)
     = sum_list (map v (filter (\<lambda>r. k r = g) rs))"
proof (cases "g \<in> set (map k rs)")
  case True
  then show ?thesis by (simp add: groupby_sum_def map_of_tabulate)
next
  case False
  then have "filter (\<lambda>r. k r = g) rs = []" by (auto simp: filter_empty_conv)
  with False show ?thesis by (simp add: groupby_sum_def map_of_tabulate)
qed

lemma indice_uniao:
  "sort (remdups (sort (remdups xs) @ sort (remdups ys))) = sort (remdups (xs @ ys))"
  by (rule sorted_distinct_set_unique) simp_all

lemma add_fill_groupby:
  "add_fill (groupby_sum Time_Casa v rs) (groupby_sum Time_Visitante w rs)
     = map (\<lambda>t. (t, sum_list (map v (filter (\<lambda>r. Time_Casa r = t) rs))
                   + sum_list (map w (filter (\<lambda>r. Time_Visitante r = t) rs))))
           (todos_times rs)"
  unfolding add_fill_def groupby_sum_value groupby_sum_keys indice_uniao todos_times_def ..

lemma set_todos_times: "set (todos_times rs) = Time_Casa ` set rs \<union> Time_Visitante ` set rs"
  by (simp add: todos_times_def)

text \<open>
  Claim C9. The total of a team is the sum of its home contribution and its away
  contribution, and the result has one entry for every team that plays in the slice in
  either role: a team that plays in one role only is listed, with 0 for the other role.
\<close>

theorem totais_por_time:
  "gols_totais rs
     = map (\<lambda>t. (t, sum_list (map (nan0 \<circ> Gols_Time_Casa) (filter (\<lambda>r. Time_Casa r = t) rs))
                   + sum_list (map (nan0 \<circ> Gols_Time_Visitante) (filter (\<lambda>r. Time_Visitante r = t) rs))))
           (todos_times rs)
   \<and> amarelos_totais rs
     = map (\<lambda>t. (t, sum_list (map (nan0 \<circ> Amarelos_Casa) (filter (\<lambda>r. Time_Casa r = t) rs))
                   + sum_list (map (nan0 \<circ> Amarelos_Visitante) (filter (\<lambda>r. Time_Visitante r = t) rs))))
           (todos_times rs)
   \<and> set (todos_times rs) = Time_Casa ` set rs \<union> Time_Visitante ` set rs
   \<and> (t \<in> Time_Casa ` set rs \<and> t \<notin> Time_Visitante ` set rs \<longrightarrow>
        map_of (gols_totais rs) t
          = Some (sum_list (map (nan0 \<circ> Gols_Time_Casa) (filter (\<lambda>r. Time_Casa r = t) rs)) + 0))
   \<and> (t \<in> Time_Visitante ` set rs \<and> t \<notin> Time_Casa ` set rs \<longrightarrow>
        map_of (gols_totais rs) t
          = Some (0 + sum_list (map (nan0 \<circ> Gols_Time_Visitante) (filter (\<lambda>r. Time_Visitante r = t) rs))))"
proof -
  have g: "gols_totais rs
     = map (\<lambda>t. (t, sum_list (map (nan0 \<circ> Gols_Time_Casa) (filter (\<lambda>r. Time_Casa r = t) rs))
                   + sum_list (map (nan0 \<circ> Gols_Time_Visitante) (filter (\<lambda>r. Time_Visitante r = t) rs))))
           (todos_times rs)"
    unfolding gols_totais_def gols_casa_def gols_visitante_def by (rule add_fill_groupby)
  have a: "amarelos_totais rs
     = map (\<lambda>t. (t, sum_list (map (nan0 \<circ> Amarelos_Casa) (filter (\<lambda>r. Time_Casa r = t) rs))
                   + sum_list (map (nan0 \<circ> Amarelos_Visitante) (filter (\<lambda>r. Time_Visitante r = t) rs))))
           (todos_times rs)"
    unfolding amarelos_totais_def amarelos_casa_def amarelos_visitante_def
    by (rule add_fill_groupby)
  have h: "t \<in> Time_Casa ` set rs \<and> t \<notin> Time_Visitante ` set rs \<longrightarrow>
        map_of (gols_totais rs) t
          = Some (sum_list (map (nan0 \<circ> Gols_Time_Casa) (filter (\<lambda>r. Time_Casa r = t) rs)) + 0)"
  proof
    assume t: "t \<in> Time_Casa ` set rs \<and> t \<notin> Time_Visitante ` set rs"
    then have "filter (\<lambda>r. Time_Visitante r = t) rs = []"
      by (force simp: filter_empty_conv image_iff)
    with t show "map_of (gols_totais rs) t
          = Some (sum_list (map (nan0 \<circ> Gols_Time_Casa) (filter (\<lambda>r. Time_Casa r = t) rs)) + 0)"
      unfolding g map_of_tabulate by (simp add: set_todos_times)
  qed
  have w: "t \<in> Time_Visitante ` set rs \<and> t \<notin> Time_Casa ` set rs \<longrightarrow>
        map_of (gols_totais rs) t
          = Some (0 + sum_list (map (nan0 \<circ> Gols_Time_Visitante) (filter (\<lambda>r. Time_Visitante r = t) rs)))"
  proof
    assume t: "t \<in> Time_Visitante ` set rs \<and> t \<notin> Time_Casa ` set rs"
    then have "filter (\<lambda>r. Time_Casa r = t) rs = []"
      by (force simp: filter_empty_conv image_iff)
    with t show "map_of (gols_totais rs) t
          = Some (0 + sum_list (map (nan0 \<circ> Gols_Time_Visitante) (filter (\<lambda>r. Time_Visitante r = t) rs)))"
      unfolding g map_of_tabulate by (simp add: set_todos_times)
  qed
  from g a h w set_todos_times show ?thesis by blast
qed

theorem totais_por_time_witness:
  "gols_totais (take 3 jogos_exemplo)
     = [(''Arsenal'', 5), (''Brighton & Hove Albion'', 1), (''Chelsea'', 1)]
   \<and> ''Brighton & Hove Albion'' \<in> Time_Casa ` set (take 3 jogos_exemplo)
   \<and> ''Brighton & Hove Albion'' \<notin> Time_Visitante ` set (take 3 jogos_exemplo)
   \<and> map_of (gols_totais (take 3 jogos_exemplo)) ''Brighton & Hove Albion'' = Some 1"
proof -
  have t: "todos_times (take 3 jogos_exemplo) = [''Arsenal'', ''Brighton & Hove Albion'', ''Chelsea'']"
    by (simp add: todos_times_def exemplo_defs)
  have h: "''Brighton & Hove Albion'' \<in> Time_Casa ` set (take 3 jogos_exemplo)"
    "''Brighton & Hove Albion'' \<notin> Time_Visitante ` set (take 3 jogos_exemplo)"
    by (simp_all add: exemplo_defs)
  have s: "sum_list (map (nan0 \<circ> Gols_Time_Casa)
             (filter (\<lambda>r. Time_Casa r = ''Brighton & Hove Albion'') (take 3 jogos_exemplo))) = 1"
    by (simp add: exemplo_defs)
  have "gols_totais (take 3 jogos_exemplo)
     = map (\<lambda>t. (t, sum_list (map (nan0 \<circ> Gols_Time_Casa) (filter (\<lambda>r. Time_Casa r = t) (take 3 jogos_exemplo)))
                   + sum_list (map (nan0 \<circ> Gols_Time_Visitante) (filter (\<lambda>r. Time_Visitante r = t) (take 3 jogos_exemplo)))))
           [''Arsenal'', ''Brighton & Hove Albion'', ''Chelsea'']"
    using totais_por_time[of "take 3 jogos_exemplo" "''Arsenal''"] unfolding t by blast
  also have "\<dots> = [(''Arsenal'', 5), (''Brighton & Hove Albion'', 1), (''Chelsea'', 1)]"
    by (simp add: exemplo_defs)
  finally have "gols_totais (take 3 jogos_exemplo)
     = [(''Arsenal'', 5), (''Brighton & Hove Albion'', 1), (''Chelsea'', 1)]" .
  moreover have "map_of (gols_totais (take 3 jogos_exemplo)) ''Brighton & Hove Albion''
      = Some (sum_list (map (nan0 \<circ> Gols_Time_Casa)
             (filter (\<lambda>r. Time_Casa r = ''Brighton & Hove Albion'') (take 3 jogos_exemplo))) + 0)"
    using totais_por_time[of "take 3 jogos_exemplo" "''Brighton & Hove Albion''"] h by blast
  then have "map_of (gols_totais (take 3 jogos_exemplo)) ''Brighton & Hove Albion'' = Some 1"
    unfolding s by simp
  ultimately show ?thesis using h by blast
qed

section \<open>Failures of \<open>load_data\<close>\<close>


lemma primeira_ausente_Some: "primeira_ausente cols cs = Some c \<Longrightarrow> c \<in> set cs \<and> c \<notin> set cols"
  by (induction cs) (auto split: if_splits)























section \<open>The aggregations and the tables\<close>

lemma executar_outros: "op \<noteq> Campeoes \<Longrightarrow> fst (executar op s) = s"
  by (cases op) simp_all

lemma executar_nomes:
  "df (fst (executar op s)) = df s \<and> df_analise (fst (executar op s)) = df_analise s"
  by (cases op) (simp_all add: teste_campeoes_def)

lemma executar_df: "heap (fst (executar op (inicio det d))) ! df (inicio det d) = d"
  by (cases op) (simp_all add: teste_campeoes_def inicio_def)

lemma marcar_campeao_linhas: "linhas (marcar_campeao d) = linhas d"
  by (simp add: marcar_campeao_def)

lemma teste_campeoes_analise:
  "heap (fst (executar Campeoes (inicio det d))) ! df_analise (inicio det d)
     = marcar_campeao (escopo det d)"
  by (simp add: teste_campeoes_def inicio_def)

text \<open>
  Claim C3, as amended. No aggregation changes the loaded table \<open>df\<close>, and every
  aggregation but the champions test leaves the working copy \<open>df_analise\<close> as it was.
  The champions test assigns into \<open>df_analise\<close>: it adds the boolean column \<open>Campeao\<close>
  and changes no row and no other column. The working copy is a different object from the
  loaded table, so the loaded table does not get the column.
\<close>

theorem agregacoes_e_tabelas:
  "heap (fst (executar op (inicio det d))) ! df (inicio det d) = d
   \<and> df (fst (executar op s)) = df s \<and> df_analise (fst (executar op s)) = df_analise s
   \<and> (op \<noteq> Campeoes \<longrightarrow> fst (executar op s) = s)
   \<and> linhas (heap (fst (executar Campeoes (inicio det d))) ! df_analise (inicio det d))
       = linhas (escopo det d)
   \<and> colunas (heap (fst (executar Campeoes (inicio det d))) ! df_analise (inicio det d))
       = atribuir ''Campeao'' (colunas d)
   \<and> (''Campeao'' \<notin> set (colunas d) \<longrightarrow>
        colunas (heap (fst (executar Campeoes (inicio det d))) ! df_analise (inicio det d))
          = colunas d @ [''Campeao''])
   \<and> Campeao (heap (fst (executar Campeoes (inicio det d))) ! df_analise (inicio det d))
       = Some (map (\<lambda>r. isin_champions (linhas (escopo det d)) (Time_Casa r))
                 (linhas (escopo det d)))"
proof -
  have c: "colunas (marcar_campeao (escopo det d)) = atribuir ''Campeao'' (colunas d)"
    by (simp add: marcar_campeao_def escopo_def)
  have c': "''Campeao'' \<notin> set (colunas d) \<longrightarrow>
          colunas (marcar_campeao (escopo det d)) = colunas d @ [''Campeao'']"
    unfolding c by (simp add: atribuir_def)
  have f: "Campeao (marcar_campeao (escopo det d))
         = Some (map (\<lambda>r. isin_champions (linhas (escopo det d)) (Time_Casa r))
                 (linhas (escopo det d)))"
    by (simp add: marcar_campeao_def)
  show ?thesis
    unfolding teste_campeoes_analise
    using executar_df[of op det d] executar_nomes[of op s] executar_outros[of op s]
      marcar_campeao_linhas[of "escopo det d"] c c' f
    by (intro conjI impI) simp_all
qed

lemma champions_exemplo:
  "champions jogos_exemplo = [(''1999/00'', ''Arsenal'', 1), (''2000/01'', ''Chelsea'', 1)]"
  by (simp add: champions_def ordenar_campeoes_def vitorias_casa_por_time_def groupby_sum_def
      exemplo_defs)

lemma colunas_exemplo: "''Campeao'' \<notin> set (colunas tabela_exemplo)"
  by (simp add: tabela_exemplo_def renomear_def colunas_derivadas_def arbitro_label_def)

theorem agregacoes_e_tabelas_witness:
  "Totais_Por_Time \<noteq> Campeoes
   \<and> fst (executar Totais_Por_Time (inicio False tabela_exemplo)) = inicio False tabela_exemplo
   \<and> ''Campeao'' \<notin> set (colunas tabela_exemplo)
   \<and> colunas (heap (fst (executar Campeoes (inicio False tabela_exemplo))) ! 1)
       = colunas tabela_exemplo @ [''Campeao'']
   \<and> linhas (heap (fst (executar Campeoes (inicio False tabela_exemplo))) ! 1) = jogos_exemplo
   \<and> Campeao (heap (fst (executar Campeoes (inicio False tabela_exemplo))) ! 1)
       = Some [True, True, False, True]
   \<and> heap (fst (executar Campeoes (inicio False tabela_exemplo))) ! 0 = tabela_exemplo"
proof -
  have n: "Totais_Por_Time \<noteq> Campeoes" by simp
  have i: "df_analise (inicio False tabela_exemplo) = 1" "df (inicio False tabela_exemplo) = 0"
    by (simp_all add: inicio_def)
  have e: "linhas (escopo False tabela_exemplo) = jogos_exemplo"
    by (simp add: escopo_def tabela_exemplo_def)
  have m: "map (\<lambda>r. isin_champions jogos_exemplo (Time_Casa r)) jogos_exemplo
             = [True, True, False, True]"
    unfolding isin_champions_def champions_exemplo by (simp add: exemplo_defs)
  note t = agregacoes_e_tabelas[of _ False tabela_exemplo "inicio False tabela_exemplo",
      unfolded i e m]
  from t[of Totais_Por_Time] n
  have 1: "fst (executar Totais_Por_Time (inicio False tabela_exemplo)) = inicio False tabela_exemplo"
    by blast
  from t[of Campeoes] colunas_exemplo
  have 2: "colunas (heap (fst (executar Campeoes (inicio False tabela_exemplo))) ! 1)
       = colunas tabela_exemplo @ [''Campeao'']"
    "linhas (heap (fst (executar Campeoes (inicio False tabela_exemplo))) ! 1) = jogos_exemplo"
    "Campeao (heap (fst (executar Campeoes (inicio False tabela_exemplo))) ! 1)
       = Some [True, True, False, True]"
    "heap (fst (executar Campeoes (inicio False tabela_exemplo))) ! 0 = tabela_exemplo"
    by blast+
  from n 1 colunas_exemplo 2 show ?thesis by (intro conjI)
qed

theorem campeao_altera_df_analise_counterexample:
  "colunas (heap (fst (executar Campeoes (inicio False tabela_exemplo)))
             ! df_analise (inicio False tabela_exemplo))
     = colunas tabela_exemplo @ [''Campeao'']
   \<and> heap (fst (executar Campeoes (inicio False tabela_exemplo)))
         ! df_analise (inicio False tabela_exemplo)
       \<noteq> heap (inicio False tabela_exemplo) ! df_analise (inicio False tabela_exemplo)"
proof -
  have a: "colunas (heap (fst (executar Campeoes (inicio False tabela_exemplo)))
             ! df_analise (inicio False tabela_exemplo))
     = colunas tabela_exemplo @ [''Campeao'']"
    using colunas_exemplo
    by (simp add: teste_campeoes_def inicio_def escopo_def marcar_campeao_def atribuir_def)
  have b: "colunas (heap (inicio False tabela_exemplo) ! df_analise (inicio False tabela_exemplo))
     = colunas tabela_exemplo"
    by (simp add: inicio_def escopo_def)
  from a b have "colunas (heap (fst (executar Campeoes (inicio False tabela_exemplo)))
             ! df_analise (inicio False tabela_exemplo))
     \<noteq> colunas (heap (inicio False tabela_exemplo) ! df_analise (inicio False tabela_exemplo))"
    by simp
  then have "heap (fst (executar Campeoes (inicio False tabela_exemplo)))
         ! df_analise (inicio False tabela_exemplo)
       \<noteq> heap (inicio False tabela_exemplo) ! df_analise (inicio False tabela_exemplo)"
    by metis
  with a show ?thesis by (intro conjI)
qed

section \<open>Champions\<close>

lemma insort_key_lex:
  fixes f :: "'a \<Rightarrow> 'k::linorder" and g :: "'a \<Rightarrow> 'l::linorder"
  assumes "sorted (map (\<lambda>y. (f y, g y)) ys)" "\<forall>y \<in> set ys. g x \<le> g y"
  shows "sorted (map (\<lambda>y. (f y, g y)) (insort_key f x ys))"
  using assms
proof (induction ys)
  case Nil
  then show ?case by simp
next
  case (Cons y ys)
  show ?case
  proof (cases "f x \<le> f y")
    case True
    have "(f x, g x) \<le> (f y, g y)" using True Cons.prems(2) by auto
    moreover have "\<forall>z \<in> set ys. (f y, g y) \<le> (f z, g z)" using Cons.prems(1) by auto
    ultimately have "\<forall>z \<in> set (y # ys). (f x, g x) \<le> (f z, g z)"
      by (auto intro: order_trans)
    with True Cons.prems(1) show ?thesis by (auto simp del: less_eq_prod_simp)
  next
    case False
    then have "(f y, g y) \<le> (f x, g x)" by auto
    moreover have "sorted (map (\<lambda>y. (f y, g y)) (insort_key f x ys))"
      using Cons by simp
    ultimately show ?thesis using False Cons.prems(1)
      by (auto simp: set_insort_key simp del: less_eq_prod_simp)
  qed
qed

lemma sort_key_lex:
  fixes f :: "'a \<Rightarrow> 'k::linorder" and g :: "'a \<Rightarrow> 'l::linorder"
  assumes "sorted (map g xs)"
  shows "sorted (map (\<lambda>y. (f y, g y)) (sort_key f xs))"
  using assms
proof (induction xs)
  case Nil
  then show ?case by simp
next
  case (Cons x xs)
  then have "sorted (map (\<lambda>y. (f y, g y)) (sort_key f xs))" by simp
  moreover have "\<forall>y \<in> set (sort_key f xs). g x \<le> g y" using Cons.prems by simp
  ultimately show ?case by (simp add: insort_key_lex)
qed

lemma head1_sorted:
  fixes k :: "string \<times> string \<times> int \<Rightarrow> 'k::linorder"
  assumes "sorted (map k xs)" "inj k"
  shows "x \<in> set (head1 xs) \<longleftrightarrow> x \<in> set xs \<and> (\<forall>y \<in> set xs. fst y = fst x \<longrightarrow> k x \<le> k y)"
  using assms(1)
proof (induction xs arbitrary: x rule: head1.induct)
  case 1
  then show ?case by simp
next
  case (2 x0 xs)
  let ?ys = "filter (\<lambda>y. fst y \<noteq> fst x0) xs"
  have s: "sorted (map k ?ys)" using "2.prems" by (simp add: sorted_filter)
  have m: "\<forall>y \<in> set xs. k x0 \<le> k y" using "2.prems" by simp
  have ih: "x \<in> set (head1 ?ys) \<longleftrightarrow> x \<in> set ?ys \<and> (\<forall>y \<in> set ?ys. fst y = fst x \<longrightarrow> k x \<le> k y)"
    using "2.IH"[OF s] .
  show ?case
  proof (cases "fst x = fst x0")
    case True
    then have "x \<notin> set (head1 ?ys)" using ih by simp
    moreover have "x \<in> set (x0 # xs) \<and> (\<forall>y \<in> set (x0 # xs). fst y = fst x \<longrightarrow> k x \<le> k y)
                   \<longleftrightarrow> x = x0"
    proof
      assume a: "x \<in> set (x0 # xs) \<and> (\<forall>y \<in> set (x0 # xs). fst y = fst x \<longrightarrow> k x \<le> k y)"
      with True have "k x \<le> k x0" by simp
      moreover from a m have "k x0 \<le> k x" by auto
      ultimately have "k x = k x0" by simp
      with assms(2) show "x = x0" by (simp add: inj_eq)
    next
      assume "x = x0"
      with m show "x \<in> set (x0 # xs) \<and> (\<forall>y \<in> set (x0 # xs). fst y = fst x \<longrightarrow> k x \<le> k y)"
        by simp
    qed
    ultimately show ?thesis by simp
  next
    case False
    then have "x \<noteq> x0" by auto
    with False show ?thesis using ih by auto
  qed
qed

lemma inj_chave_campeao: "inj chave_campeao"
  by (auto simp: inj_def chave_campeao_def prod_eq_iff)

lemma vitorias_casa_por_time_set:
  "(t, c, v) \<in> set (vitorias_casa_por_time rs) \<longleftrightarrow>
     (\<exists>r \<in> set rs. Temporada r = t \<and> Time_Casa r = c) \<and> v = vitorias_casa rs t c"
  by (auto simp: vitorias_casa_por_time_def groupby_sum_def vitorias_casa_def image_iff)

lemma vitorias_casa_por_time_sorted:
  "sorted (map (\<lambda>x. (fst x, fst (snd x))) (vitorias_casa_por_time rs))"
proof -
  have "map (\<lambda>x. (fst x, fst (snd x))) (vitorias_casa_por_time rs)
          = sort (remdups (map (\<lambda>r. (Temporada r, Time_Casa r)) rs))"
    by (simp add: vitorias_casa_por_time_def groupby_sum_def comp_def case_prod_beta)
  then show ?thesis by simp
qed

lemma ordenar_campeoes_sorted:
  "sorted (map chave_campeao (ordenar_campeoes (vitorias_casa_por_time rs)))"
proof -
  have "sorted (map (\<lambda>x. ((\<lambda>(t, c, v). (t, - v)) x, (\<lambda>x. (fst x, fst (snd x))) x))
           (sort_key (\<lambda>(t, c, v). (t, - v)) (vitorias_casa_por_time rs)))"
    using vitorias_casa_por_time_sorted by (rule sort_key_lex)
  moreover have "(\<lambda>x. ((\<lambda>(t, c, v). (t, - v)) x, (\<lambda>x. (fst x, fst (snd x))) x)) = chave_campeao"
    by (auto simp: chave_campeao_def fun_eq_iff)
  ultimately show ?thesis by (simp add: ordenar_campeoes_def)
qed

lemma champions_set:
  "(t, c, v) \<in> set (champions rs) \<longleftrightarrow>
     (t, c, v) \<in> set (vitorias_casa_por_time rs)
     \<and> (\<forall>y \<in> set (vitorias_casa_por_time rs). fst y = t \<longrightarrow> chave_campeao (t, c, v) \<le> chave_campeao y)"
  unfolding champions_def
  using head1_sorted[OF ordenar_campeoes_sorted inj_chave_campeao, of "(t, c, v)" rs]
  by (simp add: ordenar_campeoes_def)

lemma chave_campeao_le:
  "chave_campeao (t, c, v) \<le> chave_campeao (t, c', v') \<longleftrightarrow> v' < v \<or> (v' = v \<and> c \<le> c')"
  by (auto simp: chave_campeao_def)

lemma champions_campeao:
  "(t, c, v) \<in> set (champions rs) \<longleftrightarrow> campeao_da_temporada rs t c \<and> v = vitorias_casa rs t c"
proof -
  have "(\<forall>y \<in> set (vitorias_casa_por_time rs). fst y = t \<longrightarrow>
           chave_campeao (t, c, vitorias_casa rs t c) \<le> chave_campeao y)
        \<longleftrightarrow> (\<forall>r \<in> set rs. Temporada r = t \<longrightarrow>
           vitorias_casa rs t (Time_Casa r) < vitorias_casa rs t c
           \<or> (vitorias_casa rs t (Time_Casa r) = vitorias_casa rs t c \<and> c \<le> Time_Casa r))"
    (is "?L \<longleftrightarrow> ?R")
  proof
    assume l: ?L
    show ?R
    proof (intro ballI impI)
      fix r assume r: "r \<in> set rs" "Temporada r = t"
      then have "(t, Time_Casa r, vitorias_casa rs t (Time_Casa r)) \<in> set (vitorias_casa_por_time rs)"
        unfolding vitorias_casa_por_time_set by blast
      with l have "chave_campeao (t, c, vitorias_casa rs t c)
                    \<le> chave_campeao (t, Time_Casa r, vitorias_casa rs t (Time_Casa r))"
        by fastforce
      then show "vitorias_casa rs t (Time_Casa r) < vitorias_casa rs t c
           \<or> (vitorias_casa rs t (Time_Casa r) = vitorias_casa rs t c \<and> c \<le> Time_Casa r)"
        by (simp only: chave_campeao_le)
    qed
  next
    assume rr: ?R
    show ?L
    proof (intro ballI impI)
      fix y assume y: "y \<in> set (vitorias_casa_por_time rs)" "fst y = t"
      obtain c' v' where yy: "y = (t, c', v')" using y(2) by (cases y) auto
      from y(1)[unfolded yy vitorias_casa_por_time_set]
      obtain r where r: "r \<in> set rs" "Temporada r = t" "Time_Casa r = c'"
        "v' = vitorias_casa rs t c'" by blast
      with rr have "v' < vitorias_casa rs t c \<or> (v' = vitorias_casa rs t c \<and> c \<le> c')"
        by blast
      then show "chave_campeao (t, c, vitorias_casa rs t c) \<le> chave_campeao y"
        unfolding yy by (simp only: chave_campeao_le)
    qed
  qed
  then show ?thesis
    unfolding champions_set vitorias_casa_por_time_set campeao_da_temporada_def by blast
qed

lemma isin_champions_iff:
  "isin_champions rs c \<longleftrightarrow> (\<exists>t \<in> set (map Temporada rs). campeao_da_temporada rs t c)"
proof -
  have "isin_champions rs c \<longleftrightarrow> (\<exists>t v. (t, c, v) \<in> set (champions rs))"
    by (force simp: isin_champions_def)
  also have "\<dots> \<longleftrightarrow> (\<exists>t. campeao_da_temporada rs t c)"
    unfolding champions_campeao by blast
  also have "\<dots> \<longleftrightarrow> (\<exists>t \<in> set (map Temporada rs). campeao_da_temporada rs t c)"
    by (auto simp: campeao_da_temporada_def)
  finally show ?thesis .
qed

lemma campeao_maior: "campeao_da_temporada rs t c \<Longrightarrow> maior_vitorias_casa rs t c"
  unfolding campeao_da_temporada_def maior_vitorias_casa_def by force

lemma campeao_estrito:
  assumes "\<exists>r \<in> set rs. Temporada r = t \<and> Time_Casa r = c"
    "\<forall>r \<in> set rs. Temporada r = t \<and> Time_Casa r \<noteq> c \<longrightarrow>
        vitorias_casa rs t (Time_Casa r) < vitorias_casa rs t c"
  shows "campeao_da_temporada rs t c"
  unfolding campeao_da_temporada_def
proof (intro conjI ballI impI)
  show "\<exists>r \<in> set rs. Temporada r = t \<and> Time_Casa r = c" by (rule assms(1))
next
  fix r assume r: "r \<in> set rs" "Temporada r = t"
  show "vitorias_casa rs t (Time_Casa r) < vitorias_casa rs t c
        \<or> (vitorias_casa rs t (Time_Casa r) = vitorias_casa rs t c \<and> c \<le> Time_Casa r)"
  proof (cases "Time_Casa r = c")
    case True
    then show ?thesis by simp
  next
    case False
    with r assms(2) show ?thesis by blast
  qed
qed

text \<open>
  Claim C4, as amended. A row of the slice is flagged \<open>Campeao\<close> exactly when its home
  team is the champion of some season of the slice, where the champion of a season is the
  home team with the highest count of home wins in that season and, among the teams tied
  at that count, the one whose name comes first. So a team that alone has the highest
  count in a season is flagged, a team that is champion in no season is not flagged, and a
  champion always has the highest count of its season.
\<close>

theorem campeao_flag:
  "(isin_champions rs c \<longleftrightarrow> (\<exists>t \<in> set (map Temporada rs). campeao_da_temporada rs t c))
   \<and> (campeao_da_temporada rs t c \<longrightarrow> isin_champions rs c \<and> maior_vitorias_casa rs t c)
   \<and> ((\<forall>t \<in> set (map Temporada rs). \<not> campeao_da_temporada rs t c) \<longrightarrow> \<not> isin_champions rs c)
   \<and> ((\<exists>r \<in> set rs. Temporada r = t \<and> Time_Casa r = c)
       \<and> (\<forall>r \<in> set rs. Temporada r = t \<and> Time_Casa r \<noteq> c \<longrightarrow>
             vitorias_casa rs t (Time_Casa r) < vitorias_casa rs t c)
       \<longrightarrow> isin_champions rs c)
   \<and> Campeao (marcar_campeao d)
       = Some (map (\<lambda>r. isin_champions (linhas d) (Time_Casa r)) (linhas d))"
proof -
  have a: "isin_champions rs c \<longleftrightarrow> (\<exists>t \<in> set (map Temporada rs). campeao_da_temporada rs t c)"
    by (rule isin_champions_iff)
  have b: "campeao_da_temporada rs t c \<longrightarrow> isin_champions rs c \<and> maior_vitorias_casa rs t c"
  proof
    assume h: "campeao_da_temporada rs t c"
    then have "t \<in> set (map Temporada rs)" by (auto simp: campeao_da_temporada_def)
    with h have "isin_champions rs c" unfolding a by blast
    with h campeao_maior show "isin_champions rs c \<and> maior_vitorias_casa rs t c" by blast
  qed
  have c: "(\<forall>t \<in> set (map Temporada rs). \<not> campeao_da_temporada rs t c) \<longrightarrow> \<not> isin_champions rs c"
    unfolding a by blast
  have d: "(\<exists>r \<in> set rs. Temporada r = t \<and> Time_Casa r = c)
       \<and> (\<forall>r \<in> set rs. Temporada r = t \<and> Time_Casa r \<noteq> c \<longrightarrow>
             vitorias_casa rs t (Time_Casa r) < vitorias_casa rs t c)
       \<longrightarrow> isin_champions rs c"
    using campeao_estrito[of rs t c] b by blast
  have e: "Campeao (marcar_campeao d)
       = Some (map (\<lambda>r. isin_champions (linhas d) (Time_Casa r)) (linhas d))"
    by (simp add: marcar_campeao_def)
  from a b c d e show ?thesis by (intro conjI)
qed

lemma temporadas_exemplo:
  "map Temporada jogos_exemplo = [''1999/00'', ''1999/00'', ''2000/01'', ''2000/01'']"
  by (simp add: exemplo_defs)

lemma campeao_exemplo:
  "campeao_da_temporada jogos_exemplo ''1999/00'' ''Arsenal''"
  "campeao_da_temporada jogos_exemplo ''2000/01'' ''Chelsea''"
  "\<not> campeao_da_temporada jogos_exemplo ''1999/00'' ''Brighton & Hove Albion''"
  "\<not> campeao_da_temporada jogos_exemplo ''2000/01'' ''Brighton & Hove Albion''"
  by (simp_all add: campeao_da_temporada_def vitorias_casa_def exemplo_defs)

theorem campeao_flag_witness:
  "campeao_da_temporada jogos_exemplo ''1999/00'' ''Arsenal''
   \<and> campeao_da_temporada jogos_exemplo ''2000/01'' ''Chelsea''
   \<and> isin_champions jogos_exemplo ''Arsenal''
   \<and> isin_champions jogos_exemplo ''Chelsea''
   \<and> \<not> campeao_da_temporada jogos_exemplo ''1999/00'' ''Brighton & Hove Albion''
   \<and> \<not> campeao_da_temporada jogos_exemplo ''2000/01'' ''Brighton & Hove Albion''
   \<and> \<not> isin_champions jogos_exemplo ''Brighton & Hove Albion''"
proof -
  have n: "\<forall>t \<in> set (map Temporada jogos_exemplo).
             \<not> campeao_da_temporada jogos_exemplo t ''Brighton & Hove Albion''"
    unfolding temporadas_exemplo using campeao_exemplo(3,4) by simp
  from campeao_flag[of jogos_exemplo "''Arsenal''" "''1999/00''"] campeao_exemplo(1)
  have 1: "isin_champions jogos_exemplo ''Arsenal''" by blast
  from campeao_flag[of jogos_exemplo "''Chelsea''" "''2000/01''"] campeao_exemplo(2)
  have 2: "isin_champions jogos_exemplo ''Chelsea''" by blast
  from campeao_flag[of jogos_exemplo "''Brighton & Hove Albion''" "''2000/01''"] n
  have 3: "\<not> isin_champions jogos_exemplo ''Brighton & Hove Albion''" by blast
  from campeao_exemplo 1 2 3 show ?thesis by (intro conjI)
qed

lemma champions_empate:
  "champions jogos_empate = [(''2000/01'', ''Arsenal'', 1), (''2001/02'', ''Everton'', 1)]"
  by (simp add: champions_def ordenar_campeoes_def vitorias_casa_por_time_def groupby_sum_def
      jogos_empate_def jogo_csv_exemplo_def linha_def replace_team_def team_mapping_def
      gt_nan_def)

theorem campeao_empate_counterexample:
  "map Temporada jogos_empate = [''2000/01'', ''2000/01'', ''2001/02'']
   \<and> map Time_Casa jogos_empate = [''Chelsea'', ''Arsenal'', ''Everton'']
   \<and> vitorias_casa jogos_empate ''2000/01'' ''Chelsea'' = 1
   \<and> vitorias_casa jogos_empate ''2000/01'' ''Arsenal'' = 1
   \<and> maior_vitorias_casa jogos_empate ''2000/01'' ''Chelsea''
   \<and> map (\<lambda>r. isin_champions jogos_empate (Time_Casa r)) jogos_empate = [False, True, True]
   \<and> \<not> isin_champions jogos_empate ''Chelsea''"
proof -
  have t: "map Temporada jogos_empate = [''2000/01'', ''2000/01'', ''2001/02'']"
    "map Time_Casa jogos_empate = [''Chelsea'', ''Arsenal'', ''Everton'']"
    by (simp_all add: jogos_empate_def jogo_csv_exemplo_def linha_def
        replace_team_def team_mapping_def)
  have v: "vitorias_casa jogos_empate ''2000/01'' ''Chelsea'' = 1"
    "vitorias_casa jogos_empate ''2000/01'' ''Arsenal'' = 1"
    by (simp_all add: vitorias_casa_def jogos_empate_def jogo_csv_exemplo_def linha_def
        replace_team_def team_mapping_def gt_nan_def)
  have m: "maior_vitorias_casa jogos_empate ''2000/01'' ''Chelsea''"
    by (simp add: maior_vitorias_casa_def vitorias_casa_def jogos_empate_def
        jogo_csv_exemplo_def linha_def replace_team_def team_mapping_def gt_nan_def)
  have i: "\<not> isin_champions jogos_empate ''Chelsea''" "isin_champions jogos_empate ''Arsenal''"
    "isin_champions jogos_empate ''Everton''"
    unfolding isin_champions_def champions_empate by simp_all
  have "map (\<lambda>r. isin_champions jogos_empate (Time_Casa r)) jogos_empate
          = map (isin_champions jogos_empate) (map Time_Casa jogos_empate)"
    by simp
  also have "\<dots> = [False, True, True]" unfolding t using i by simp
  finally have c: "map (\<lambda>r. isin_champions jogos_empate (Time_Casa r)) jogos_empate
                     = [False, True, True]" .
  from t v m c i(1) show ?thesis by (intro conjI)
qed

end
